theory Spec2Isabelle
  imports Main
begin

section \<open>The settings model of dynamodel\<close>

text \<open>
  The repository's source is one class, in \<^verbatim>\<open>src/dynamodel/settings/base.py\<close>:
  \<^verbatim>\<open>
  from pydantic import BaseModel, Field

  class BaseSettings(BaseModel):
      type_name: str | None = None

      access_patterns: dict = Field(default_factory=dict)
  \<close>
  The class body declares two fields and nothing else: no \<^verbatim>\<open>model_config\<close>, no
  validator, no method. What the class does when it is instantiated, read and assigned to
  is what pydantic's \<^verbatim>\<open>BaseModel\<close> (version 2) does for these two annotations under
  its default configuration; the embedding below writes that behaviour out for this
  class: the validators of the annotations \<^verbatim>\<open>str | None\<close> and \<^verbatim>\<open>dict\<close> in lax mode,
  the defaults, the collection of the field errors into one \<^verbatim>\<open>ValidationError\<close>, and
  attribute assignment.
\<close>

subsection \<open>Python values\<close>

text \<open>
  The values a caller can pass for a field. A \<^verbatim>\<open>str\<close> is held as its UTF-8 encoding
  (one \<^typ>\<open>char\<close> per byte), \<^verbatim>\<open>bytes\<close> and \<^verbatim>\<open>bytearray\<close> as their bytes, a
  \<^verbatim>\<open>dict\<close> as the list of its items in insertion order; its keys are values of any
  kind, as Python allows. A member of an \<^verbatim>\<open>Enum\<close> class is held as the text that
  \<^verbatim>\<open>str\<close> gives for its value, which is all that the validators below read of it: the
  member \<^verbatim>\<open>ONE = 1\<close> is \<open>PEnum ''1''\<close>. (A member of an enum class that derives from
  \<^verbatim>\<open>str\<close> is a string, and is held as one.) Floats, sets, tuples and instances of
  other user classes are left out of the model.
\<close>

datatype pyval =
    PNone
  | PBool bool
  | PInt int
  | PStr string
  | PBytes "char list"
  | PBytearray "char list"
  | PList "pyval list"
  | PDict "(pyval \<times> pyval) list"
  | PEnum string

fun is_str :: "pyval \<Rightarrow> bool" where
  "is_str (PStr s) = True"
| "is_str v = False"

fun is_dict :: "pyval \<Rightarrow> bool" where
  "is_dict (PDict kvs) = True"
| "is_dict v = False"



fun dict_keys :: "pyval \<Rightarrow> pyval list" where
  "dict_keys (PDict kvs) = map fst kvs"
| "dict_keys v = []"

subsection \<open>Decoding bytes\<close>

text \<open>
  In lax mode a \<^verbatim>\<open>str\<close> field takes \<^verbatim>\<open>bytes\<close> and \<^verbatim>\<open>bytearray\<close> and decodes
  them as UTF-8, refusing an ill-formed sequence. \<open>utf8_valid\<close> accepts the well-formed
  byte sequences of the Unicode standard (no overlong form, no surrogate, nothing above
  U+10FFFF).
\<close>

definition in_range :: "nat \<Rightarrow> char \<Rightarrow> nat \<Rightarrow> bool" where
  "in_range lo c hi = (lo \<le> of_char c \<and> (of_char c :: nat) \<le> hi)"

definition cont :: "char \<Rightarrow> bool" where
  "cont c = in_range 0x80 c 0xBF"

fun utf8_valid :: "char list \<Rightarrow> bool" where
  "utf8_valid [] = True"
| "utf8_valid (b # bs) =
     (let n = (of_char b :: nat) in
      if n < 0x80 then utf8_valid bs
      else if n < 0xC2 then False
      else if n < 0xE0 then
        (case bs of
           c1 # r \<Rightarrow> cont c1 \<and> utf8_valid r
         | _ \<Rightarrow> False)
      else if n < 0xF0 then
        (case bs of
           c1 # c2 # r \<Rightarrow>
             in_range (if n = 0xE0 then 0xA0 else 0x80) c1 (if n = 0xED then 0x9F else 0xBF)
             \<and> cont c2 \<and> utf8_valid r
         | _ \<Rightarrow> False)
      else if n < 0xF5 then
        (case bs of
           c1 # c2 # c3 # r \<Rightarrow>
             in_range (if n = 0xF0 then 0x90 else 0x80) c1 (if n = 0xF4 then 0x8F else 0xBF)
             \<and> cont c2 \<and> cont c3 \<and> utf8_valid r
         | _ \<Rightarrow> False)
      else False)"

definition from_utf8 :: "char list \<Rightarrow> string option" where
  "from_utf8 b = (if utf8_valid b then Some b else None)"

subsection \<open>Errors\<close>

text \<open>
  A \<^verbatim>\<open>ValidationError\<close> carries one line per invalid field: the field's name
  (\<^verbatim>\<open>loc\<close>), the kind of error (\<^verbatim>\<open>type\<close>, which names the expected type) and the
  offending input. Any other exception that Python code can raise (\<^verbatim>\<open>TypeError\<close>,
  \<^verbatim>\<open>ValueError\<close>, \<^verbatim>\<open>AttributeError\<close>, ...) is an \<open>OtherException\<close> with the
  name of its class. An operation that raises returns no instance: its result is the
  exception alone.
\<close>

datatype error_type = string_type | string_unicode | dict_type | frozen_instance

datatype line_error = LineError (loc: string) (etype: error_type) (input_value: pyval)

datatype error = ValidationError "line_error list" | OtherException string

subsection \<open>Configuration\<close>

text \<open>
  The class sets no \<^verbatim>\<open>model_config\<close>, so the defaults of pydantic hold: validation is
  lax, instances are not frozen, assignments are not validated. (The fourth default,
  \<^verbatim>\<open>extra = 'ignore'\<close>, is why construction looks up the two field names in its input and
  nothing else.)
\<close>

record config =
  strict :: bool
  frozen :: bool
  validate_assignment :: bool

definition model_config :: config where
  "model_config = \<lparr>strict = False, frozen = False, validate_assignment = False\<rparr>"

subsection \<open>The validators of the two annotations\<close>

text \<open>
  \<^verbatim>\<open>str\<close>: a string passes as it is. In lax mode \<^verbatim>\<open>bytes\<close> and \<^verbatim>\<open>bytearray\<close>
  are decoded, and a member of an \<^verbatim>\<open>Enum\<close> class is replaced by
  \<^verbatim>\<open>str(member.value)\<close>; numbers are not turned into strings
  (\<^verbatim>\<open>coerce_numbers_to_str\<close> is off by default). Everything else is refused.
\<close>

fun validate_str :: "bool \<Rightarrow> pyval \<Rightarrow> error_type + pyval" where
  "validate_str is_strict (PStr s) = Inr (PStr s)"
| "validate_str is_strict (PBytes b) =
     (if is_strict then Inl string_type
      else case from_utf8 b of Some s \<Rightarrow> Inr (PStr s) | None \<Rightarrow> Inl string_unicode)"
| "validate_str is_strict (PBytearray b) =
     (if is_strict then Inl string_type
      else case from_utf8 b of Some s \<Rightarrow> Inr (PStr s) | None \<Rightarrow> Inl string_unicode)"
| "validate_str is_strict (PEnum t) =
     (if is_strict then Inl string_type else Inr (PStr t))"
| "validate_str is_strict v = Inl string_type"

text \<open>\<^verbatim>\<open>str | None\<close>: \<^verbatim>\<open>None\<close> passes, anything else goes to the inner validator.\<close>

fun validate_nullable :: "(pyval \<Rightarrow> error_type + pyval) \<Rightarrow> pyval \<Rightarrow> error_type + pyval" where
  "validate_nullable inner PNone = Inr PNone"
| "validate_nullable inner v = inner v"

text \<open>
  \<^verbatim>\<open>dict\<close> without parameters: the input must be a mapping; its keys and values are of
  any type and are copied as they are into a new dict.
\<close>

fun validate_dict :: "bool \<Rightarrow> pyval \<Rightarrow> error_type + pyval" where
  "validate_dict is_strict (PDict kvs) = Inr (PDict kvs)"
| "validate_dict is_strict v = Inl dict_type"

definition type_name_validator :: "pyval \<Rightarrow> error_type + pyval" where
  "type_name_validator = validate_nullable (validate_str (strict model_config))"

definition access_patterns_validator :: "pyval \<Rightarrow> error_type + pyval" where
  "access_patterns_validator = validate_dict (strict model_config)"

subsection \<open>Construction\<close>

text \<open>
  \<^verbatim>\<open>BaseSettings(**kwargs)\<close>. Each field, in the order of declaration, is looked up in
  the keyword arguments: a missing field takes its default (\<^verbatim>\<open>None\<close>, and a new empty
  dict from \<^verbatim>\<open>default_factory\<close>), a supplied one is validated. The errors of all fields
  are collected; if there is one, \<^verbatim>\<open>ValidationError\<close> is raised and there is no
  instance.
\<close>

datatype field_result = FieldSet pyval | FieldDefault pyval | FieldError line_error

definition validate_field ::
  "string \<Rightarrow> (pyval \<Rightarrow> error_type + pyval) \<Rightarrow> pyval \<Rightarrow> (string \<rightharpoonup> pyval) \<Rightarrow> field_result" where
  "validate_field name validator dflt kwargs =
     (case kwargs name of
        None \<Rightarrow> FieldDefault dflt
      | Some v \<Rightarrow>
          (case validator v of
             Inl t \<Rightarrow> FieldError (LineError name t v)
           | Inr v' \<Rightarrow> FieldSet v'))"

fun field_errors :: "field_result \<Rightarrow> line_error list" where
  "field_errors (FieldError e) = [e]"
| "field_errors r = []"

fun field_value :: "field_result \<Rightarrow> pyval option" where
  "field_value (FieldSet v) = Some v"
| "field_value (FieldDefault v) = Some v"
| "field_value (FieldError e) = None"

fun fields_set_of :: "string \<Rightarrow> field_result \<Rightarrow> string set" where
  "fields_set_of name (FieldSet v) = {name}"
| "fields_set_of name r = {}"

record BaseSettings =
  type_name :: pyval
  access_patterns :: pyval
  model_fields_set :: "string set"

definition BaseSettings_init :: "(string \<rightharpoonup> pyval) \<Rightarrow> error + BaseSettings" where
  "BaseSettings_init kwargs =
     (let r1 = validate_field ''type_name'' type_name_validator PNone kwargs;
          r2 = validate_field ''access_patterns'' access_patterns_validator (PDict []) kwargs
      in case (field_value r1, field_value r2) of
           (Some t, Some a) \<Rightarrow>
             Inr \<lparr>type_name = t, access_patterns = a,
                  model_fields_set =
                    fields_set_of ''type_name'' r1 \<union> fields_set_of ''access_patterns'' r2\<rparr>
         | _ \<Rightarrow> Inl (ValidationError (field_errors r1 @ field_errors r2)))"

subsection \<open>Attribute assignment\<close>

text \<open>
  \<^verbatim>\<open>self.type_name = v\<close> and \<^verbatim>\<open>self.access_patterns = v\<close>, as
  \<^verbatim>\<open>BaseModel.__setattr__\<close> does them for a declared field: a frozen model refuses, a
  model that validates assignments runs the field's validator first, and otherwise the
  value is stored as it is and the field counts as set.
\<close>

datatype field_name = Type_name | Access_patterns

fun field_key :: "field_name \<Rightarrow> string" where
  "field_key Type_name = ''type_name''"
| "field_key Access_patterns = ''access_patterns''"

fun field_validator :: "field_name \<Rightarrow> pyval \<Rightarrow> error_type + pyval" where
  "field_validator Type_name = type_name_validator"
| "field_validator Access_patterns = access_patterns_validator"

fun store :: "BaseSettings \<Rightarrow> field_name \<Rightarrow> pyval \<Rightarrow> BaseSettings" where
  "store self Type_name v =
     self\<lparr>type_name := v, model_fields_set := insert ''type_name'' (model_fields_set self)\<rparr>"
| "store self Access_patterns v =
     self\<lparr>access_patterns := v,
          model_fields_set := insert ''access_patterns'' (model_fields_set self)\<rparr>"

definition setattr :: "BaseSettings \<Rightarrow> field_name \<Rightarrow> pyval \<Rightarrow> error + BaseSettings" where
  "setattr self f v =
     (if frozen model_config then
        Inl (ValidationError [LineError (field_key f) frozen_instance v])
      else if validate_assignment model_config then
        (case field_validator f v of
           Inl t \<Rightarrow> Inl (ValidationError [LineError (field_key f) t v])
         | Inr v' \<Rightarrow> Inr (store self f v'))
      else Inr (store self f v))"

section \<open>Properties of construction\<close>

lemma type_name_validator_None [simp]: "type_name_validator PNone = Inr PNone"
  by (simp add: type_name_validator_def)

lemma type_name_validator_PStr [simp]: "type_name_validator (PStr s) = Inr (PStr s)"
  by (simp add: type_name_validator_def)

lemma access_patterns_validator_PDict [simp]:
  "access_patterns_validator (PDict kvs) = Inr (PDict kvs)"
  by (simp add: access_patterns_validator_def)




lemma type_name_validator_PEnum [simp]: "type_name_validator (PEnum t) = Inr (PStr t)"
  by (simp add: type_name_validator_def model_config_def)


lemma access_patterns_validator_Inr:
  "access_patterns_validator v = Inr w \<Longrightarrow> is_dict v \<and> w = v"
  by (cases v) (auto simp: access_patterns_validator_def)


text \<open>What a successful construction says about each field.\<close>

lemma init_Inr_D:
  assumes "BaseSettings_init kwargs = Inr r"
  shows "(case kwargs ''type_name'' of None \<Rightarrow> type_name r = PNone
          | Some v \<Rightarrow> type_name_validator v = Inr (type_name r))"
    and "(case kwargs ''access_patterns'' of None \<Rightarrow> access_patterns r = PDict []
          | Some v \<Rightarrow> access_patterns_validator v = Inr (access_patterns r))"
  using assms
  by (auto simp: BaseSettings_init_def validate_field_def split: option.splits sum.splits)

lemma init_succeeds:
  assumes "field_errors (validate_field ''type_name'' type_name_validator PNone kwargs) = []"
    and "field_errors
           (validate_field ''access_patterns'' access_patterns_validator (PDict []) kwargs) = []"
  shows "\<exists>r. BaseSettings_init kwargs = Inr r"
  using assms
  by (auto simp: BaseSettings_init_def validate_field_def split: option.splits sum.splits)






subsection \<open>Defaults\<close>

text \<open>
  C1. An input that has neither the key \<^verbatim>\<open>type_name\<close> nor the key
  \<^verbatim>\<open>access_patterns\<close> (the empty input among them) is accepted, and the instance has
  \<^verbatim>\<open>type_name = None\<close> and \<^verbatim>\<open>access_patterns = {}\<close>; no field counts as set.
\<close>

theorem init_defaults:
  "kwargs ''type_name'' = None \<Longrightarrow> kwargs ''access_patterns'' = None \<Longrightarrow>
   BaseSettings_init kwargs =
     Inr \<lparr>type_name = PNone, access_patterns = PDict [], model_fields_set = {}\<rparr>"
  by (simp add: BaseSettings_init_def validate_field_def)

text \<open>The scenario of the empty input.\<close>

theorem init_defaults_witness:
  "BaseSettings_init Map.empty =
     Inr \<lparr>type_name = PNone, access_patterns = PDict [], model_fields_set = {}\<rparr>"
  using init_defaults [of Map.empty] by simp

subsection \<open>Assignment after construction\<close>

text \<open>
  The model is not frozen. The instance built from the empty input has
  \<^verbatim>\<open>type_name = None\<close>; after \<^verbatim>\<open>s.type_name = "User"\<close> it has
  \<^verbatim>\<open>type_name = "User"\<close>: the value seen right after construction is not the value seen
  later.
\<close>

theorem assignment_changes_type_name:
  "BaseSettings_init Map.empty =
     Inr \<lparr>type_name = PNone, access_patterns = PDict [], model_fields_set = {}\<rparr>
   \<and> setattr \<lparr>type_name = PNone, access_patterns = PDict [], model_fields_set = {}\<rparr>
        Type_name (PStr ''User'') =
     Inr \<lparr>type_name = PStr ''User'', access_patterns = PDict [],
          model_fields_set = {''type_name''}\<rparr>"
  by (simp add: BaseSettings_init_def validate_field_def setattr_def model_config_def)

text \<open>
  C2, as the code has it. A constructed instance is not frozen: assigning to
  \<^verbatim>\<open>type_name\<close> or to \<^verbatim>\<open>access_patterns\<close> succeeds for any value (assignments are
  not validated, so the value may be one that construction refuses), makes that field
  hold the assigned value and leaves the other field as it was.
\<close>

theorem fields_change_by_assignment:
  assumes "BaseSettings_init kwargs = Inr r"
  shows "(\<exists>r'. setattr r Type_name v = Inr r' \<and> type_name r' = v
            \<and> access_patterns r' = access_patterns r)
         \<and> (\<exists>r'. setattr r Access_patterns v = Inr r' \<and> access_patterns r' = v
            \<and> type_name r' = type_name r)"
  by (simp add: setattr_def model_config_def)

text \<open>
  On the instance built from the empty input: \<^verbatim>\<open>s.type_name = "User"\<close> and
  \<^verbatim>\<open>s.access_patterns = None\<close>.
\<close>

theorem fields_change_by_assignment_witness:
  "\<exists>r. BaseSettings_init Map.empty = Inr r
     \<and> (\<exists>r'. setattr r Type_name (PStr ''User'') = Inr r' \<and> type_name r' = PStr ''User''
            \<and> access_patterns r' = access_patterns r)
     \<and> (\<exists>r'. setattr r Access_patterns PNone = Inr r' \<and> access_patterns r' = PNone
            \<and> type_name r' = type_name r)"
proof -
  let ?r = "\<lparr>type_name = PNone, access_patterns = PDict [], model_fields_set = {}\<rparr>"
  have h: "BaseSettings_init Map.empty = Inr ?r"
    by (simp add: BaseSettings_init_def validate_field_def)
  from fields_change_by_assignment [OF h, of "PStr ''User''"]
    fields_change_by_assignment [OF h, of PNone] h
  show ?thesis by blast
qed

subsection \<open>The keys of \<^verbatim>\<open>access_patterns\<close>\<close>

text \<open>
  The annotation is \<^verbatim>\<open>dict\<close> without parameters, so keys are not checked: the input
  \<^verbatim>\<open>{"access_patterns": {1: "pk"}}\<close> is accepted and the instance has the key
  \<^verbatim>\<open>1\<close>, an integer.
\<close>

theorem non_string_key_accepted:
  "BaseSettings_init [''access_patterns'' \<mapsto> PDict [(PInt 1, PStr ''pk'')]] =
     Inr \<lparr>type_name = PNone, access_patterns = PDict [(PInt 1, PStr ''pk'')],
          model_fields_set = {''access_patterns''}\<rparr>
   \<and> \<not> list_all is_str (dict_keys (PDict [(PInt 1, PStr ''pk'')]))"
  by (simp add: BaseSettings_init_def validate_field_def)

text \<open>
  C3, as the code has it. The keys of a constructed instance's \<^verbatim>\<open>access_patterns\<close>
  are the keys of the supplied mapping, in its order (none when the field is omitted),
  whatever their types; they are all strings exactly when all supplied keys are strings.
\<close>

theorem keys_as_supplied:
  assumes "BaseSettings_init kwargs = Inr r"
  shows "dict_keys (access_patterns r) =
           (case kwargs ''access_patterns'' of None \<Rightarrow> [] | Some v \<Rightarrow> dict_keys v)
         \<and> (list_all is_str (dict_keys (access_patterns r)) \<longleftrightarrow>
             (case kwargs ''access_patterns'' of None \<Rightarrow> True
              | Some v \<Rightarrow> list_all is_str (dict_keys v)))"
  using init_Inr_D(2) [OF assms]
  by (auto split: option.splits dest!: access_patterns_validator_Inr)

theorem keys_as_supplied_witness:
  "\<exists>r. BaseSettings_init [''access_patterns'' \<mapsto> PDict [(PStr ''by_id'', PStr ''pk'')]] = Inr r
       \<and> dict_keys (access_patterns r) = [PStr ''by_id'']
       \<and> list_all is_str (dict_keys (access_patterns r))"
proof -
  let ?kw = "[''access_patterns'' \<mapsto> PDict [(PStr ''by_id'', PStr ''pk'')]]"
  let ?r = "\<lparr>type_name = PNone, access_patterns = PDict [(PStr ''by_id'', PStr ''pk'')],
             model_fields_set = {''access_patterns''}\<rparr>"
  have h: "BaseSettings_init ?kw = Inr ?r"
    by (simp add: BaseSettings_init_def validate_field_def)
  from keys_as_supplied [OF h] h show ?thesis by simp
qed

subsection \<open>Rejected values\<close>






subsection \<open>Supplied values are kept\<close>

text \<open>
  C6. When \<^verbatim>\<open>access_patterns\<close> is supplied as a mapping, the constructed instance's
  \<^verbatim>\<open>access_patterns\<close> is that mapping: the same items, none added, dropped or changed.
  Construction does succeed when \<^verbatim>\<open>type_name\<close> is absent, \<^verbatim>\<open>None\<close> or a string.
\<close>

theorem access_patterns_kept:
  assumes "kwargs ''access_patterns'' = Some (PDict kvs)"
  shows "(\<forall>r. BaseSettings_init kwargs = Inr r \<longrightarrow> access_patterns r = PDict kvs)
         \<and> (kwargs ''type_name'' = None \<or> kwargs ''type_name'' = Some PNone
              \<or> (\<exists>s. kwargs ''type_name'' = Some (PStr s))
            \<longrightarrow> (\<exists>r. BaseSettings_init kwargs = Inr r))"
proof (intro conjI allI impI)
  fix r assume "BaseSettings_init kwargs = Inr r"
  from init_Inr_D(2) [OF this] assms show "access_patterns r = PDict kvs"
    by simp
next
  assume "kwargs ''type_name'' = None \<or> kwargs ''type_name'' = Some PNone
            \<or> (\<exists>s. kwargs ''type_name'' = Some (PStr s))"
  with assms show "\<exists>r. BaseSettings_init kwargs = Inr r"
    by (intro init_succeeds) (auto simp: validate_field_def)
qed

text \<open>The scenario \<^verbatim>\<open>{"access_patterns": {"by_id": "pk"}}\<close>.\<close>

theorem access_patterns_kept_witness:
  "\<exists>r. BaseSettings_init [''access_patterns'' \<mapsto> PDict [(PStr ''by_id'', PStr ''pk'')]] = Inr r
       \<and> type_name r = PNone
       \<and> access_patterns r = PDict [(PStr ''by_id'', PStr ''pk'')]"
proof -
  let ?kw = "[''access_patterns'' \<mapsto> PDict [(PStr ''by_id'', PStr ''pk'')]]"
  from access_patterns_kept [of ?kw "[(PStr ''by_id'', PStr ''pk'')]"]
  obtain r where r: "BaseSettings_init ?kw = Inr r"
    and a: "access_patterns r = PDict [(PStr ''by_id'', PStr ''pk'')]"
    by auto
  from init_Inr_D(1) [OF r] have "type_name r = PNone" by simp
  with r a show ?thesis by blast
qed

text \<open>
  C7. When \<^verbatim>\<open>type_name\<close> is supplied as a string, the constructed instance's
  \<^verbatim>\<open>type_name\<close> is that string, unchanged. Construction does succeed when
  \<^verbatim>\<open>access_patterns\<close> is absent or a mapping.
\<close>

theorem type_name_kept:
  assumes "kwargs ''type_name'' = Some (PStr s)"
  shows "(\<forall>r. BaseSettings_init kwargs = Inr r \<longrightarrow> type_name r = PStr s)
         \<and> (kwargs ''access_patterns'' = None
              \<or> (\<exists>kvs. kwargs ''access_patterns'' = Some (PDict kvs))
            \<longrightarrow> (\<exists>r. BaseSettings_init kwargs = Inr r))"
proof (intro conjI allI impI)
  fix r assume "BaseSettings_init kwargs = Inr r"
  from init_Inr_D(1) [OF this] assms show "type_name r = PStr s"
    by simp
next
  assume "kwargs ''access_patterns'' = None
            \<or> (\<exists>kvs. kwargs ''access_patterns'' = Some (PDict kvs))"
  with assms show "\<exists>r. BaseSettings_init kwargs = Inr r"
    by (intro init_succeeds) (auto simp: validate_field_def)
qed

text \<open>The scenario \<^verbatim>\<open>{"type_name": "User"}\<close>.\<close>

theorem type_name_kept_witness:
  "\<exists>r. BaseSettings_init [''type_name'' \<mapsto> PStr ''User''] = Inr r
       \<and> type_name r = PStr ''User'' \<and> access_patterns r = PDict []"
proof -
  let ?kw = "[''type_name'' \<mapsto> PStr ''User'']"
  from type_name_kept [of ?kw "''User''"]
  obtain r where r: "BaseSettings_init ?kw = Inr r" and t: "type_name r = PStr ''User''"
    by auto
  from init_Inr_D(2) [OF r] have "access_patterns r = PDict []" by simp
  with r t show ?thesis by blast
qed

subsection \<open>Invariants of a constructed instance\<close>

text \<open>
  C8. The \<^verbatim>\<open>access_patterns\<close> of a constructed instance is a mapping and never
  \<^verbatim>\<open>None\<close>; when the input omits the field it is the empty mapping.
\<close>

theorem access_patterns_never_null:
  assumes "BaseSettings_init kwargs = Inr r"
  shows "is_dict (access_patterns r) \<and> access_patterns r \<noteq> PNone
         \<and> (kwargs ''access_patterns'' = None \<longrightarrow> access_patterns r = PDict [])"
  using init_Inr_D(2) [OF assms]
  by (auto split: option.splits dest!: access_patterns_validator_Inr)

theorem access_patterns_never_null_witness:
  "\<exists>r. BaseSettings_init [''type_name'' \<mapsto> PStr ''User''] = Inr r
       \<and> is_dict (access_patterns r) \<and> access_patterns r \<noteq> PNone
       \<and> access_patterns r = PDict []"
proof -
  let ?kw = "[''type_name'' \<mapsto> PStr ''User'']"
  have "\<exists>r. BaseSettings_init ?kw = Inr r"
    by (rule init_succeeds) (simp_all add: validate_field_def)
  then obtain r where r: "BaseSettings_init ?kw = Inr r" ..
  from access_patterns_never_null [OF r] r show ?thesis by auto
qed



subsection \<open>Keys that are not fields\<close>

text \<open>
  C10. Keys of the input other than \<^verbatim>\<open>type_name\<close> and \<^verbatim>\<open>access_patterns\<close> are
  ignored: construction gives the same result as on the input without them. When the two
  fields are absent or valid (\<^verbatim>\<open>type_name\<close> \<^verbatim>\<open>None\<close> or a string,
  \<^verbatim>\<open>access_patterns\<close> a mapping) construction succeeds.
\<close>

theorem extra_keys_ignored:
  "BaseSettings_init (kwargs |` {''type_name'', ''access_patterns''}) = BaseSettings_init kwargs
   \<and> ((kwargs ''type_name'' = None \<or> kwargs ''type_name'' = Some PNone
          \<or> (\<exists>s. kwargs ''type_name'' = Some (PStr s)))
        \<and> (kwargs ''access_patterns'' = None
          \<or> (\<exists>kvs. kwargs ''access_patterns'' = Some (PDict kvs)))
      \<longrightarrow> (\<exists>r. BaseSettings_init kwargs = Inr r))"
proof (intro conjI impI)
  show "BaseSettings_init (kwargs |` {''type_name'', ''access_patterns''})
          = BaseSettings_init kwargs"
    by (simp add: BaseSettings_init_def validate_field_def)
next
  assume "(kwargs ''type_name'' = None \<or> kwargs ''type_name'' = Some PNone
          \<or> (\<exists>s. kwargs ''type_name'' = Some (PStr s)))
        \<and> (kwargs ''access_patterns'' = None
          \<or> (\<exists>kvs. kwargs ''access_patterns'' = Some (PDict kvs)))"
  then show "\<exists>r. BaseSettings_init kwargs = Inr r"
    by (intro init_succeeds) (auto simp: validate_field_def)
qed

theorem extra_keys_ignored_witness:
  "\<exists>r. BaseSettings_init [''type_name'' \<mapsto> PStr ''User'', ''region'' \<mapsto> PInt 7] = Inr r
       \<and> BaseSettings_init [''type_name'' \<mapsto> PStr ''User''] = Inr r"
proof -
  let ?kw = "[''type_name'' \<mapsto> PStr ''User'', ''region'' \<mapsto> PInt 7]"
  have "?kw |` {''type_name'', ''access_patterns''} = [''type_name'' \<mapsto> PStr ''User'']"
    by (rule ext) (simp add: restrict_map_def)
  with extra_keys_ignored [of ?kw] show ?thesis by auto
qed

end
